theory Spec2Isabelle
  imports Complex_Main
begin

section \<open>Cantilever beam solvers (src/services/beamSolver.ts)\<close>

text \<open>
  The four solvers of \<^verbatim>\<open>beamSolver.ts\<close> are embedded as HOL functions.
  A JavaScript \<^verbatim>\<open>number\<close> is modelled as a \<^typ>\<open>real\<close>: arithmetic is exact, so
  IEEE-754 rounding, overflow, signed zeros, \<^verbatim>\<open>NaN\<close> and \<^verbatim>\<open>Infinity\<close> are not
  part of the model. In HOL \<open>u / 0 = 0\<close>, whereas JavaScript yields \<^verbatim>\<open>NaN\<close> or
  \<^verbatim>\<open>Infinity\<close>; every statement below whose truth depends on a quotient therefore
  carries the hypotheses under which the source divides by a non-zero number. The quotient
  \<^verbatim>\<open>nP / P\<close> of the load ratio, which the source guards itself, is modelled as
  partial: it has no value where JavaScript yields a non-finite number.
  Loop counters are natural numbers. Reading a field of \<^verbatim>\<open>undefined\<close> (the last
  element of an empty array) throws a \<^verbatim>\<open>TypeError\<close> in the source and is an error
  value in the model.
\<close>

subsection \<open>Data model (types.ts)\<close>

datatype BeamModelType =
    LINEAR
  | NONLINEAR
  | PRB_1R_CANTILEVER_P
  | PRB_1R_CANTILEVER_PNP
  | PRB_1R_MOMENT
  | PRB_3R_SU

record PrbParameters =
  gamma :: "real option"
  k_theta :: "real option"
  c_theta :: "real option"
  links :: "real list option"
  stiffness_coeffs :: "real list option"
  stiffness_physicals :: "real list option"

record BeamParams =
  E :: real
  I :: real
  L :: real
  P :: real
  nP :: real
  M0 :: real
  c :: real
  A :: real

text \<open>The fields \<^verbatim>\<open>x\<close> and \<^verbatim>\<open>y\<close> of a point are named \<open>pt_x\<close> and \<open>pt_y\<close>, the
  plain names being the solvers' local variables.\<close>

record Point =
  pt_x :: real
  pt_y :: real

record BeamResult =
  points :: "Point list"
  tipX :: real
  tipY :: real
  tipAngle :: real
  maxStress :: real
  label :: string
  color :: string
  prbParams :: "PrbParameters option"

datatype jserror = TypeError

text \<open>\<^verbatim>\<open>points[points.length - 1]\<close>: \<^verbatim>\<open>undefined\<close> on an empty array, and the field
  access that follows in the source then throws.\<close>

definition lastPoint :: "Point list \<Rightarrow> jserror + Point" where
  "lastPoint pts = (if pts = [] then Inl TypeError else Inr (last pts))"

subsection \<open>solveLinearBeam\<close>

text \<open>The body of the sampling loop at counter \<open>i\<close> (\<^verbatim>\<open>steps = 50\<close>).\<close>

definition linearPoint :: "BeamParams \<Rightarrow> real \<Rightarrow> nat \<Rightarrow> Point" where
  "linearPoint p EI i =
     (let x = (real i / 50) * L p;
          y = (P p * x ^ 2 / (6 * EI)) * (3 * L p - x) + (M0 p * x ^ 2) / (2 * EI)
      in \<lparr>pt_x = x, pt_y = y\<rparr>)"

text \<open>\<^verbatim>\<open>for (let i = 0; i <= steps; i++) { ...; points.push({ x, y }); }\<close>\<close>

function linearLoop :: "BeamParams \<Rightarrow> real \<Rightarrow> nat \<Rightarrow> Point list \<Rightarrow> Point list" where
  "linearLoop p EI i pts =
     (if i \<le> 50 then linearLoop p EI (Suc i) (pts @ [linearPoint p EI i]) else pts)"
  by pat_completeness auto
termination
  by (relation "measure (\<lambda>(p, EI, i, pts). 51 - i)") auto

declare linearLoop.simps [simp del]

definition solveLinearBeam :: "BeamParams \<Rightarrow> jserror + BeamResult" where
  "solveLinearBeam p =
     (let EI = E p * I p;
          pts = linearLoop p EI 0 []
      in case lastPoint pts of
           Inl e \<Rightarrow> Inl e
         | Inr tip \<Rightarrow> Inr
             \<lparr>points = pts,
              tipX = L p,
              tipY = pt_y tip,
              tipAngle = (P p * L p * L p) / (2 * EI) + (M0 p * L p) / EI,
              maxStress = \<bar>(P p * L p + M0 p) * c p / I p\<bar>,
              label = ''Linear'',
              color = ''#3b82f6'',
              prbParams = None\<rparr>)"

text \<open>The closed form of the specification: deflection at station \<open>s\<close> of a cantilever of
  length \<open>len\<close> under tip force \<open>F\<close> and tip moment \<open>M\<close>.\<close>

definition spec_deflection :: "real \<Rightarrow> real \<Rightarrow> real \<Rightarrow> real \<Rightarrow> real \<Rightarrow> real" where
  "spec_deflection F M EI len s = (F * s\<^sup>2) / (6 * EI) * (3 * len - s) + (M * s\<^sup>2) / (2 * EI)"

definition spec_linear_polyline :: "BeamParams \<Rightarrow> Point list" where
  "spec_linear_polyline p =
     map (\<lambda>i. \<lparr>pt_x = (real i / 50) * L p,
               pt_y = spec_deflection (P p) (M0 p) (E p * I p) (L p) ((real i / 50) * L p)\<rparr>)
       [0..<51]"

subsection \<open>solveNonlinearBeam\<close>

record Derivatives =
  dx :: real
  dy :: real
  dt :: real

text \<open>The closure \<^verbatim>\<open>getDerivatives\<close> captures \<^verbatim>\<open>P\<close>, \<^verbatim>\<open>nP\<close>, \<^verbatim>\<open>M0\<close>, \<^verbatim>\<open>EI\<close> and the
  current guess \<^verbatim>\<open>(a, b)\<close>; they are arguments here.\<close>

definition getDerivatives ::
  "BeamParams \<Rightarrow> real \<Rightarrow> real \<Rightarrow> real \<Rightarrow> real \<Rightarrow> real \<Rightarrow> real \<Rightarrow> Derivatives" where
  "getDerivatives p EI a b cx cy ct =
     (let M = P p * (a - cx) + nP p * (b - cy) + M0 p
      in \<lparr>dx = cos ct, dy = sin ct, dt = M / EI\<rparr>)"

text \<open>One pass of the inner loop body: the new \<^verbatim>\<open>(x, y, theta)\<close>.\<close>

definition rk4Step ::
  "BeamParams \<Rightarrow> real \<Rightarrow> real \<Rightarrow> real \<Rightarrow> real \<Rightarrow> real \<times> real \<times> real \<Rightarrow> real \<times> real \<times> real" where
  "rk4Step p EI a b ds s =
     (case s of (x, y, theta) \<Rightarrow>
       let k1 = getDerivatives p EI a b x y theta;
           k2 = getDerivatives p EI a b
                  (x + dx k1 * ds / 2) (y + dy k1 * ds / 2) (theta + dt k1 * ds / 2);
           k3 = getDerivatives p EI a b
                  (x + dx k2 * ds / 2) (y + dy k2 * ds / 2) (theta + dt k2 * ds / 2);
           k4 = getDerivatives p EI a b
                  (x + dx k3 * ds) (y + dy k3 * ds) (theta + dt k3 * ds)
       in (x + (ds / 6) * (dx k1 + 2 * dx k2 + 2 * dx k3 + dx k4),
           y + (ds / 6) * (dy k1 + 2 * dy k2 + 2 * dy k3 + dy k4),
           theta + (ds / 6) * (dt k1 + 2 * dt k2 + 2 * dt k3 + dt k4)))"

text \<open>\<^verbatim>\<open>for (let i = 0; i < steps; i++)\<close>: the first argument counts the passes that
  remain; the state is \<^verbatim>\<open>(x, y, theta)\<close> and the array \<^verbatim>\<open>points\<close>.\<close>

fun integrate ::
  "nat \<Rightarrow> BeamParams \<Rightarrow> real \<Rightarrow> real \<Rightarrow> real \<Rightarrow> real \<Rightarrow>
   (real \<times> real \<times> real) \<times> Point list \<Rightarrow> (real \<times> real \<times> real) \<times> Point list" where
  "integrate 0 p EI a b ds st = st"
| "integrate (Suc n) p EI a b ds st =
     (case st of (s, pts) \<Rightarrow>
        (case rk4Step p EI a b ds s of (x, y, theta) \<Rightarrow>
           integrate n p EI a b ds ((x, y, theta), pts @ [\<lparr>pt_x = x, pt_y = y\<rparr>])))"

text \<open>The variables that live across the outer loop.\<close>

record ShootState =
  guess_a :: real
  guess_b :: real
  cur_points :: "Point list"
  finalTheta :: real

text \<open>\<^verbatim>\<open>for (let iter = 0; iter < 15; iter++)\<close>: the first argument counts the outer
  iterations that remain; \<^verbatim>\<open>break\<close> returns the state as it is.\<close>

fun shootLoop :: "nat \<Rightarrow> BeamParams \<Rightarrow> real \<Rightarrow> real \<Rightarrow> ShootState \<Rightarrow> jserror + ShootState" where
  "shootLoop 0 p EI ds st = Inr st"
| "shootLoop (Suc n) p EI ds st =
     (case integrate 100 p EI (guess_a st) (guess_b st) ds ((0, 0, 0), [\<lparr>pt_x = 0, pt_y = 0\<rparr>]) of
        ((x, y, theta), pts) \<Rightarrow>
          (case lastPoint pts of
             Inl e \<Rightarrow> Inl e
           | Inr lst \<Rightarrow>
               let errorX = pt_x lst - guess_a st;
                   errorY = pt_y lst - guess_b st
               in if \<bar>errorX\<bar> < 1 / 1000000 \<and> \<bar>errorY\<bar> < 1 / 1000000
                  then Inr \<lparr>guess_a = guess_a st, guess_b = guess_b st,
                            cur_points = pts, finalTheta = theta\<rparr>
                  else shootLoop n p EI ds
                         \<lparr>guess_a = guess_a st + errorX * 0.5,
                          guess_b = guess_b st + errorY * 0.5,
                          cur_points = pts, finalTheta = theta\<rparr>))"

text \<open>The state after the outer loop, for \<^verbatim>\<open>EI\<close> not zero (\<^verbatim>\<open>steps = 100\<close>,
  \<^verbatim>\<open>ds = L / steps\<close>).\<close>

definition shoot :: "BeamParams \<Rightarrow> jserror + ShootState" where
  "shoot p =
     shootLoop 15 p (E p * I p) (L p / 100)
       \<lparr>guess_a = L p, guess_b = 0, cur_points = [], finalTheta = 0\<rparr>"

definition solveNonlinearBeam :: "BeamParams \<Rightarrow> jserror + BeamResult" where
  "solveNonlinearBeam p =
     (let EI = E p * I p
      in if EI = 0
         then Inr \<lparr>points = [], tipX = 0, tipY = 0, tipAngle = 0, maxStress = 0,
                   label = ''Nonlinear'', color = ''#ef4444'', prbParams = None\<rparr>
         else
           (case shoot p of
              Inl e \<Rightarrow> Inl e
            | Inr st \<Rightarrow>
                (case lastPoint (cur_points st) of
                   Inl e \<Rightarrow> Inl e
                 | Inr tip \<Rightarrow> Inr
                     \<lparr>points = cur_points st,
                      tipX = pt_x tip,
                      tipY = pt_y tip,
                      tipAngle = finalTheta st,
                      maxStress = \<bar>(P p * guess_a st + nP p * guess_b st + M0 p) * c p / I p\<bar>,
                      label = ''Nonlinear'',
                      color = ''#ef4444'',
                      prbParams = None\<rparr>)))"

subsection \<open>solvePRB1R\<close>

text \<open>The quotient \<^verbatim>\<open>u / v\<close> where it is a finite number: with a zero divisor
  JavaScript yields \<^verbatim>\<open>Infinity\<close>, \<^verbatim>\<open>-Infinity\<close> or \<^verbatim>\<open>NaN\<close>, which is \<open>None\<close> here.\<close>

definition jsDivide :: "real \<Rightarrow> real \<Rightarrow> real option" where
  "jsDivide u v = (if v = 0 then None else Some (u / v))"

text \<open>\<^verbatim>\<open>let n = P !== 0 ? nP / P : 0\<close>\<close>

definition loadRatio :: "BeamParams \<Rightarrow> real option" where
  "loadRatio p = (if P p \<noteq> 0 then jsDivide (nP p) (P p) else Some 0)"

text \<open>The two linear fits of the combined-force variant, before clamping.\<close>

definition gammaFit :: "real \<Rightarrow> real" where
  "gammaFit n = (if n > - 1.83 then 0.8521 - 0.0183 * n else 0.9123 + 0.0146 * n)"

text \<open>\<^verbatim>\<open>gamma\<close>, \<^verbatim>\<open>K_theta\<close>, \<^verbatim>\<open>c_theta\<close>, \<^verbatim>\<open>label\<close> and \<^verbatim>\<open>color\<close> after the
  \<^verbatim>\<open>if\<close>/\<^verbatim>\<open>else if\<close> chain on the selector; the last line holds the initial values,
  which no branch has overwritten. Only the combined-force branch reads \<^verbatim>\<open>n\<close>: with a
  non-finite \<^verbatim>\<open>n\<close> its \<^verbatim>\<open>gamma\<close> would be clamped from an infinity or be \<^verbatim>\<open>NaN\<close>, and
  the model, which holds no such number, yields \<open>NonFiniteRatio\<close> instead of constants.\<close>

datatype nonfinite = NonFiniteRatio

record Prb1rConstants =
  sel_gamma :: real
  sel_K_theta :: real
  sel_c_theta :: real
  sel_label :: string
  sel_color :: string

definition selectConstants :: "BeamModelType \<Rightarrow> real option \<Rightarrow> nonfinite + Prb1rConstants" where
  "selectConstants type n =
     (if type = PRB_1R_CANTILEVER_P then Inr
        \<lparr>sel_gamma = 0.8517, sel_K_theta = 2.6706, sel_c_theta = 1.2407,
         sel_label = ''PRB 1R (P)'', sel_color = ''#22c55e''\<rparr>
      else if type = PRB_1R_CANTILEVER_PNP then
        (case n of
           None \<Rightarrow> Inl NonFiniteRatio
         | Some r \<Rightarrow> Inr
             \<lparr>sel_gamma = max 0.7 (min 0.95 (gammaFit r)), sel_K_theta = 2.65, sel_c_theta = 1.24,
              sel_label = ''PRB 1R (nP)'', sel_color = ''#f59e0b''\<rparr>)
      else if type = PRB_1R_MOMENT then Inr
        \<lparr>sel_gamma = 0.7346, sel_K_theta = 1.5164, sel_c_theta = 1.0,
         sel_label = ''PRB 1R (M)'', sel_color = ''#ec4899''\<rparr>
      else Inr
        \<lparr>sel_gamma = 0.85, sel_K_theta = 2.65, sel_c_theta = 1.24,
         sel_label = [], sel_color = []\<rparr>)"

text \<open>\<^verbatim>\<open>for (let i = 0; i < 30; i++)\<close>, damped Newton-Raphson on \<^verbatim>\<open>Theta\<close>; the first
  argument counts the iterations that remain, \<^verbatim>\<open>g\<close> is \<^verbatim>\<open>gamma\<close>.\<close>

fun newtonLoop :: "nat \<Rightarrow> BeamParams \<Rightarrow> real \<Rightarrow> real \<Rightarrow> real \<Rightarrow> real" where
  "newtonLoop 0 p K g Theta = Theta"
| "newtonLoop (Suc n) p K g Theta =
     (let f = K * Theta - (P p * g * L p * cos Theta + nP p * g * L p * sin Theta + M0 p);
          df = K + P p * g * L p * sin Theta - nP p * g * L p * cos Theta;
          delta = f / df;
          Theta' = Theta - delta * 0.8
      in if \<bar>delta\<bar> < 1 / 100000000 then Theta' else newtonLoop n p K g Theta')"

definition solvePRB1R :: "BeamParams \<Rightarrow> BeamModelType \<Rightarrow> nonfinite + BeamResult" where
  "solvePRB1R p type =
     (let EI = E p * I p;
          n = loadRatio p
      in case selectConstants type n of
           Inl e \<Rightarrow> Inl e
         | Inr k \<Rightarrow>
             let g = sel_gamma k;
                 K = g * sel_K_theta k * (EI / L p);
                 Theta = newtonLoop 30 p K g 0;
                 a = L p * (1 - g) + g * L p * cos Theta;
                 b = g * L p * sin Theta
             in Inr
               \<lparr>points = [\<lparr>pt_x = 0, pt_y = 0\<rparr>, \<lparr>pt_x = L p * (1 - g), pt_y = 0\<rparr>,
                          \<lparr>pt_x = a, pt_y = b\<rparr>],
                tipX = a,
                tipY = b,
                tipAngle = sel_c_theta k * Theta,
                maxStress = 0,
                label = sel_label k,
                color = sel_color k,
                prbParams = Some
                  \<lparr>gamma = Some g, k_theta = Some (sel_K_theta k), c_theta = Some (sel_c_theta k),
                   links = None, stiffness_coeffs = None, stiffness_physicals = Some [K]\<rparr>\<rparr>)"

subsection \<open>solvePRB3R\<close>

definition g0 :: real where "g0 = 0.1"
definition g1 :: real where "g1 = 0.35"
definition g2 :: real where "g2 = 0.40"
definition g3 :: real where "g3 = 0.15"

definition K_c1 :: real where "K_c1 = 3.51"
definition K_c2 :: real where "K_c2 = 2.99"
definition K_c3 :: real where "K_c3 = 2.58"

text \<open>The body of the relaxation loop on \<^verbatim>\<open>(T1, T2, T3)\<close>.\<close>

definition relaxStep ::
  "BeamParams \<Rightarrow> real \<Rightarrow> real \<Rightarrow> real \<Rightarrow> real \<times> real \<times> real \<Rightarrow> real \<times> real \<times> real" where
  "relaxStep p K1 K2 K3 T =
     (case T of (T1, T2, T3) \<Rightarrow>
       let a = L p * (g0 + g1 * cos T1 + g2 * cos (T1 + T2) + g3 * cos (T1 + T2 + T3));
           b = L p * (g1 * sin T1 + g2 * sin (T1 + T2) + g3 * sin (T1 + T2 + T3));
           x1 = g0 * L p + g1 * L p * cos T1;
           y1 = g1 * L p * sin T1;
           x2 = x1 + g2 * L p * cos (T1 + T2);
           y2 = y1 + g2 * L p * sin (T1 + T2);
           M1 = P p * (a - g0 * L p) + nP p * (b - 0) + M0 p;
           M2 = P p * (a - x1) + nP p * (b - y1) + M0 p;
           M3 = P p * (a - x2) + nP p * (b - y2) + M0 p
       in (T1 + (M1 / K1 - T1) * 0.1,
           T2 + (M2 / K2 - T2) * 0.1,
           T3 + (M3 / K3 - T3) * 0.1))"

text \<open>\<^verbatim>\<open>for (let iter = 0; iter < 150; iter++)\<close>, no early exit.\<close>

fun relaxLoop ::
  "nat \<Rightarrow> BeamParams \<Rightarrow> real \<Rightarrow> real \<Rightarrow> real \<Rightarrow> real \<times> real \<times> real \<Rightarrow> real \<times> real \<times> real" where
  "relaxLoop 0 p K1 K2 K3 T = T"
| "relaxLoop (Suc n) p K1 K2 K3 T = relaxLoop n p K1 K2 K3 (relaxStep p K1 K2 K3 T)"

definition solvePRB3R :: "BeamParams \<Rightarrow> BeamResult" where
  "solvePRB3R p =
     (let EI = E p * I p;
          K1 = K_c1 * (EI / L p);
          K2 = K_c2 * (EI / L p);
          K3 = K_c3 * (EI / L p)
      in case relaxLoop 150 p K1 K2 K3 (0, 0, 0) of (T1, T2, T3) \<Rightarrow>
        let p1 = \<lparr>pt_x = g0 * L p, pt_y = 0\<rparr>;
            p2 = \<lparr>pt_x = pt_x p1 + g1 * L p * cos T1, pt_y = pt_y p1 + g1 * L p * sin T1\<rparr>;
            p3 = \<lparr>pt_x = pt_x p2 + g2 * L p * cos (T1 + T2),
                  pt_y = pt_y p2 + g2 * L p * sin (T1 + T2)\<rparr>;
            p4 = \<lparr>pt_x = pt_x p3 + g3 * L p * cos (T1 + T2 + T3),
                  pt_y = pt_y p3 + g3 * L p * sin (T1 + T2 + T3)\<rparr>
        in \<lparr>points = [\<lparr>pt_x = 0, pt_y = 0\<rparr>, p1, p2, p3, p4],
            tipX = pt_x p4,
            tipY = pt_y p4,
            tipAngle = T1 + T2 + T3,
            maxStress = 0,
            label = ''PRB 3R'',
            color = ''#8b5cf6'',
            prbParams = Some
              \<lparr>gamma = None, k_theta = None, c_theta = None,
               links = Some [g0, g1, g2, g3],
               stiffness_coeffs = Some [K_c1, K_c2, K_c3],
               stiffness_physicals = Some [K1, K2, K3]\<rparr>\<rparr>)"

subsection \<open>The shooting algorithm in the words of the specification\<close>

text \<open>A state of the ODE system is the vector \<open>(x, y, \<theta>)\<close>.\<close>

type_synonym vec3 = "real \<times> real \<times> real"

definition vadd :: "vec3 \<Rightarrow> vec3 \<Rightarrow> vec3" where
  "vadd u v = (fst u + fst v, fst (snd u) + fst (snd v), snd (snd u) + snd (snd v))"

definition vscale :: "real \<Rightarrow> vec3 \<Rightarrow> vec3" where
  "vscale k v = (k * fst v, k * fst (snd v), k * snd (snd v))"

text \<open>\<open>dx/ds = cos \<theta>\<close>, \<open>dy/ds = sin \<theta>\<close>, \<open>d\<theta>/ds = M / EI\<close> with
  \<open>M = P (a - x) + nP (b - y) + M0\<close>, for the tip guess \<open>g = (a, b)\<close>.\<close>

definition spec_ode :: "BeamParams \<Rightarrow> real \<times> real \<Rightarrow> vec3 \<Rightarrow> vec3" where
  "spec_ode p g s =
     (cos (snd (snd s)),
      sin (snd (snd s)),
      (P p * (fst g - fst s) + nP p * (snd g - fst (snd s)) + M0 p) / (E p * I p))"

text \<open>One step of width \<open>h\<close> of the classical fourth-order Runge-Kutta scheme for \<open>s' = f s\<close>.\<close>

definition spec_rk4 :: "(vec3 \<Rightarrow> vec3) \<Rightarrow> real \<Rightarrow> vec3 \<Rightarrow> vec3" where
  "spec_rk4 f h s =
     (let k1 = f s;
          k2 = f (vadd s (vscale (h / 2) k1));
          k3 = f (vadd s (vscale (h / 2) k2));
          k4 = f (vadd s (vscale h k3))
      in vadd s (vscale (h / 6) (vadd k1 (vadd (vscale 2 k2) (vadd (vscale 2 k3) k4)))))"

text \<open>The state after \<open>i\<close> of the 100 equal steps over \<open>[0, L]\<close>, from \<open>(0, 0, 0)\<close>.\<close>

definition spec_station :: "BeamParams \<Rightarrow> real \<times> real \<Rightarrow> nat \<Rightarrow> vec3" where
  "spec_station p g i = ((spec_rk4 (spec_ode p g) (L p / 100)) ^^ i) (0, 0, 0)"

definition spec_polyline :: "BeamParams \<Rightarrow> real \<times> real \<Rightarrow> Point list" where
  "spec_polyline p g =
     map (\<lambda>i. \<lparr>pt_x = fst (spec_station p g i), pt_y = fst (snd (spec_station p g i))\<rparr>) [0..<101]"

text \<open>The residual between the integrated tip and the guess, and the exit test.\<close>

definition spec_residual :: "BeamParams \<Rightarrow> real \<times> real \<Rightarrow> real \<times> real" where
  "spec_residual p g =
     (fst (spec_station p g 100) - fst g, fst (snd (spec_station p g 100)) - snd g)"

definition spec_converged :: "BeamParams \<Rightarrow> real \<times> real \<Rightarrow> bool" where
  "spec_converged p g =
     (\<bar>fst (spec_residual p g)\<bar> < 1 / 1000000 \<and> \<bar>snd (spec_residual p g)\<bar> < 1 / 1000000)"

text \<open>The guess of outer iteration \<open>k\<close> (counted from 0): \<open>(L, 0)\<close> at first, then
  \<open>guess += 0.5 \<cdot> residual\<close>.\<close>

fun spec_guess :: "BeamParams \<Rightarrow> nat \<Rightarrow> real \<times> real" where
  "spec_guess p 0 = (L p, 0)"
| "spec_guess p (Suc k) =
     (fst (spec_guess p k) + 0.5 * fst (spec_residual p (spec_guess p k)),
      snd (spec_guess p k) + 0.5 * snd (spec_residual p (spec_guess p k)))"

text \<open>The outer iteration that runs last among those numbered \<open>j, \<dots>, j + n - 1\<close>: the
  first whose residual passes the exit test, the last one when none does.\<close>

definition spec_stop :: "BeamParams \<Rightarrow> nat \<Rightarrow> nat \<Rightarrow> nat" where
  "spec_stop p j n =
     (case List.find (\<lambda>k. spec_converged p (spec_guess p k)) [j..<j + n] of
        Some k \<Rightarrow> k
      | None \<Rightarrow> j + n - 1)"

definition spec_last_iteration :: "BeamParams \<Rightarrow> nat" where
  "spec_last_iteration p = spec_stop p 0 15"

text \<open>The guess held when the loop is left at iteration \<open>k\<close>: unchanged by an early exit,
  updated once more when the exit test fails.\<close>

definition spec_exit_guess :: "BeamParams \<Rightarrow> nat \<Rightarrow> real \<times> real" where
  "spec_exit_guess p k =
     (if spec_converged p (spec_guess p k) then spec_guess p k else spec_guess p (Suc k))"

definition spec_final_guess :: "BeamParams \<Rightarrow> real \<times> real" where
  "spec_final_guess p = spec_exit_guess p (spec_last_iteration p)"

text \<open>The bending moment at the tip station \<open>s = L\<close>, as the specification's formula
  \<open>M(s) = P (a - x(s)) + nP (b - y(s)) + M0\<close> gives it for the final guess \<open>(a, b)\<close> held in
  \<open>st\<close> and the integrated tip reported in \<open>r\<close>.\<close>

definition tipStationMoment :: "BeamParams \<Rightarrow> ShootState \<Rightarrow> BeamResult \<Rightarrow> real" where
  "tipStationMoment p st r =
     P p * (guess_a st - tipX r) + nP p * (guess_b st - tipY r) + M0 p"

subsection \<open>Example inputs\<close>

text \<open>A beam of the data model (\<open>E > 0\<close>, \<open>I \<ge> 0\<close>, \<open>L > 0\<close>) with \<open>I = 0\<close>, no load.\<close>

definition zero_stiffness_example :: BeamParams where
  "zero_stiffness_example =
     \<lparr>E = 1, I = 0, L = 1, P = 0, nP = 0, M0 = 0, c = 0, A = 1\<rparr>"

text \<open>The beam of the specification's linear closed-form test: \<open>E = 200e9\<close>,
  \<open>I = 1e-8\<close>, \<open>L = 1\<close>, \<open>P = 1\<close>.\<close>

definition steel_example :: BeamParams where
  "steel_example =
     \<lparr>E = 200000000000, I = 1 / 100000000, L = 1, P = 1, nP = 0, M0 = 0, c = 1 / 100, A = 1 / 1000\<rparr>"

text \<open>An unloaded beam with non-zero stiffness.\<close>

definition unloaded_example :: BeamParams where
  "unloaded_example =
     \<lparr>E = 200000000000, I = 1 / 100000000, L = 1, P = 0, nP = 0, M0 = 0, c = 1 / 100, A = 1 / 1000\<rparr>"

text \<open>A beam under a horizontal force ten times the vertical one, and one with no
  vertical force.\<close>

definition ratio_ten_example :: BeamParams where
  "ratio_ten_example =
     \<lparr>E = 200000000000, I = 1 / 100000000, L = 1, P = 1, nP = 10, M0 = 0, c = 1 / 100, A = 1 / 1000\<rparr>"

definition horizontal_only_example :: BeamParams where
  "horizontal_only_example =
     \<lparr>E = 200000000000, I = 1 / 100000000, L = 1, P = 0, nP = 5, M0 = 0, c = 1 / 100, A = 1 / 1000\<rparr>"

subsection \<open>Lemmas: solveLinearBeam\<close>

lemma linearLoop_unfold:
  "i \<le> 51 \<Longrightarrow> linearLoop p EI i pts = pts @ map (linearPoint p EI) [i..<51]"
proof (induction p EI i pts rule: linearLoop.induct)
  case (1 p EI i pts)
  show ?case
  proof (cases "i \<le> 50")
    case True
    then have "linearLoop p EI i pts = linearLoop p EI (Suc i) (pts @ [linearPoint p EI i])"
      by (simp add: linearLoop.simps [of p EI i])
    also have "\<dots> = (pts @ [linearPoint p EI i]) @ map (linearPoint p EI) [Suc i..<51]"
      using "1.IH" True by simp
    also have "\<dots> = pts @ map (linearPoint p EI) [i..<51]"
      using True by (simp add: upt_conv_Cons)
    finally show ?thesis .
  next
    case False
    with "1.prems" have "i = 51" by simp
    then show ?thesis by (simp add: linearLoop.simps [of p EI 51])
  qed
qed

lemma linearLoop_points: "linearLoop p EI 0 [] = map (linearPoint p EI) [0..<51]"
  using linearLoop_unfold [of 0 p EI "[]"] by simp

lemma linearLoop_last: "last (linearLoop p EI 0 []) = linearPoint p EI 50"
proof -
  have ne: "[0..<51::nat] \<noteq> []"
    by (simp only: upt_eq_Nil_conv) simp
  have "last (map (linearPoint p EI) [0..<51]) = linearPoint p EI (last [0..<51])"
    using ne by (rule last_map)
  also have "last [0..<51::nat] = 51 - 1"
    by (rule last_upt) simp
  finally show ?thesis
    by (simp only: linearLoop_points) simp
qed

lemma linearPoint_spec:
  "linearPoint p (E p * I p) i =
     \<lparr>pt_x = (real i / 50) * L p,
      pt_y = spec_deflection (P p) (M0 p) (E p * I p) (L p) ((real i / 50) * L p)\<rparr>"
  by (simp add: linearPoint_def spec_deflection_def Let_def)

lemma solveLinearBeam_result:
  "solveLinearBeam p =
     Inr \<lparr>points = map (linearPoint p (E p * I p)) [0..<51],
          tipX = L p,
          tipY = pt_y (linearPoint p (E p * I p) 50),
          tipAngle = (P p * L p * L p) / (2 * (E p * I p)) + (M0 p * L p) / (E p * I p),
          maxStress = \<bar>(P p * L p + M0 p) * c p / I p\<bar>,
          label = ''Linear'', color = ''#3b82f6'', prbParams = None\<rparr>"
proof -
  have ne: "linearLoop p (E p * I p) 0 [] \<noteq> []"
    by (simp add: linearLoop_points)
  have "lastPoint (linearLoop p (E p * I p) 0 []) = Inr (linearPoint p (E p * I p) 50)"
    using ne by (simp add: lastPoint_def linearLoop_last)
  then show ?thesis
    by (simp add: solveLinearBeam_def Let_def linearLoop_points del: upt_Suc)
qed

subsection \<open>Lemmas: solveNonlinearBeam refines the shooting algorithm\<close>

lemma rk4Step_spec:
  "rk4Step p (E p * I p) a b ds s = spec_rk4 (spec_ode p (a, b)) ds s"
  by (cases s) (simp add: rk4Step_def spec_rk4_def spec_ode_def getDerivatives_def vadd_def vscale_def Let_def field_simps)

lemma integrate_funpow:
  "integrate n p EI a b ds (s, pts) =
     (((rk4Step p EI a b ds) ^^ n) s,
      pts @ map (\<lambda>i. \<lparr>pt_x = fst (((rk4Step p EI a b ds) ^^ Suc i) s),
                       pt_y = fst (snd (((rk4Step p EI a b ds) ^^ Suc i) s))\<rparr>) [0..<n])"
proof (induction n arbitrary: s pts)
  case 0
  then show ?case by simp
next
  case (Suc n)
  obtain u v w where r: "rk4Step p EI a b ds s = (u, v, w)"
    by (cases "rk4Step p EI a b ds s") auto
  have up: "[0..<Suc n] = 0 # map Suc [0..<n]"
    by (simp only: map_Suc_upt upt_conv_Cons [of 0 "Suc n"])
  show ?case
    apply (simp only: integrate.simps prod.case r Suc.IH up)
    apply (simp add: funpow_swap1 r comp_def del: upt_Suc)
    done
qed


lemma rk4Step_spec_fun:
  "rk4Step p (E p * I p) a b ds = spec_rk4 (spec_ode p (a, b)) ds"
  by (rule ext) (rule rk4Step_spec)

lemma upt_101: "[0..<101] = 0 # map Suc [0..<100]"
proof -
  have "[0..<101] = 0 # [Suc 0..<101]"
    by (rule upt_conv_Cons) simp
  also have "[Suc 0..<101] = map Suc [0..<100]"
    by (simp only: map_Suc_upt) simp
  finally show ?thesis .
qed

lemma integrate_spec:
  "integrate 100 p (E p * I p) a b (L p / 100) ((0, 0, 0), [\<lparr>pt_x = 0, pt_y = 0\<rparr>]) =
     (spec_station p (a, b) 100, spec_polyline p (a, b))"
  by (simp only: integrate_funpow rk4Step_spec_fun spec_station_def spec_polyline_def upt_101)
     (simp add: comp_def del: upt_Suc funpow.simps)

lemma length_spec_polyline: "length (spec_polyline p g) = 101"
  by (simp add: spec_polyline_def del: upt_Suc)

lemma lastPoint_spec_polyline:
  "lastPoint (spec_polyline p g) =
     Inr \<lparr>pt_x = fst (spec_station p g 100), pt_y = fst (snd (spec_station p g 100))\<rparr>"
proof -
  have ne: "[0..<101::nat] \<noteq> []"
    by (simp only: upt_eq_Nil_conv) simp
  have l: "last [0..<101::nat] = 101 - 1"
    by (rule last_upt) simp
  have "spec_polyline p g \<noteq> []"
    by (simp add: spec_polyline_def)
  moreover have "last (spec_polyline p g) =
      \<lparr>pt_x = fst (spec_station p g 100), pt_y = fst (snd (spec_station p g 100))\<rparr>"
    by (simp only: spec_polyline_def last_map [OF ne] l) simp
  ultimately show ?thesis
    by (simp add: lastPoint_def)
qed


lemma spec_stop_converged:
  "spec_converged p (spec_guess p j) \<Longrightarrow> spec_stop p j (Suc n) = j"
proof -
  assume cv: "spec_converged p (spec_guess p j)"
  have "[j..<j + Suc n] = j # [Suc j..<j + Suc n]"
    by (rule upt_conv_Cons) simp
  then show ?thesis
    using cv by (simp only: spec_stop_def) simp
qed

lemma spec_stop_single:
  "\<not> spec_converged p (spec_guess p j) \<Longrightarrow> spec_stop p j (Suc 0) = j"
  by (simp add: spec_stop_def)

lemma spec_stop_shift:
  assumes ncv: "\<not> spec_converged p (spec_guess p j)"
  shows "spec_stop p j (Suc (Suc n)) = spec_stop p (Suc j) (Suc n)"
proof -
  have "[j..<j + Suc (Suc n)] = j # [Suc j..<j + Suc (Suc n)]"
    by (rule upt_conv_Cons) simp
  moreover have e: "j + Suc (Suc n) = Suc j + Suc n"
    by simp
  ultimately have l: "[j..<Suc j + Suc n] = j # [Suc j..<Suc j + Suc n]"
    by (simp only:)
  have "find (\<lambda>k. spec_converged p (spec_guess p k)) (j # [Suc j..<Suc j + Suc n]) =
        find (\<lambda>k. spec_converged p (spec_guess p k)) [Suc j..<Suc j + Suc n]"
    using ncv by (simp only: find.simps if_False)
  then show ?thesis
    by (simp only: spec_stop_def l e)
qed

lemma shootLoop_Suc:
  assumes "guess_a st = fst (spec_guess p j)" and "guess_b st = snd (spec_guess p j)"
  shows "shootLoop (Suc n) p (E p * I p) (L p / 100) st =
     (if spec_converged p (spec_guess p j)
      then Inr \<lparr>guess_a = fst (spec_guess p j), guess_b = snd (spec_guess p j),
                cur_points = spec_polyline p (spec_guess p j),
                finalTheta = snd (snd (spec_station p (spec_guess p j) 100))\<rparr>
      else shootLoop n p (E p * I p) (L p / 100)
             \<lparr>guess_a = fst (spec_guess p (Suc j)), guess_b = snd (spec_guess p (Suc j)),
              cur_points = spec_polyline p (spec_guess p j),
              finalTheta = snd (snd (spec_station p (spec_guess p j) 100))\<rparr>)"
proof -
  have g: "(guess_a st, guess_b st) = spec_guess p j"
    using assms by simp
  obtain u v w where s: "spec_station p (spec_guess p j) 100 = (u, v, w)"
    by (cases "spec_station p (spec_guess p j) 100") auto
  show ?thesis
    by (simp only: shootLoop.simps integrate_spec g s prod.case lastPoint_spec_polyline sum.case)
       (simp add: assms spec_converged_def spec_residual_def s Let_def)
qed

lemma shootLoop_spec:
  assumes "guess_a st = fst (spec_guess p j)" and "guess_b st = snd (spec_guess p j)"
  shows "shootLoop (Suc n) p (E p * I p) (L p / 100) st =
     Inr \<lparr>guess_a = fst (spec_exit_guess p (spec_stop p j (Suc n))),
          guess_b = snd (spec_exit_guess p (spec_stop p j (Suc n))),
          cur_points = spec_polyline p (spec_guess p (spec_stop p j (Suc n))),
          finalTheta = snd (snd (spec_station p (spec_guess p (spec_stop p j (Suc n))) 100))\<rparr>"
  using assms
proof (induction n arbitrary: st j)
  case 0
  show ?case
  proof (cases "spec_converged p (spec_guess p j)")
    case True
    then show ?thesis
      by (simp only: shootLoop_Suc [OF "0.prems"] spec_stop_converged [OF True] spec_exit_guess_def) simp
  next
    case False
    then show ?thesis
      by (simp only: shootLoop_Suc [OF "0.prems"] spec_stop_single [OF False] spec_exit_guess_def) simp
  qed
next
  case (Suc n)
  show ?case
  proof (cases "spec_converged p (spec_guess p j)")
    case True
    then show ?thesis
      by (simp only: shootLoop_Suc [OF Suc.prems] spec_stop_converged [OF True] spec_exit_guess_def) simp
  next
    case False
    let ?st = "\<lparr>guess_a = fst (spec_guess p (Suc j)), guess_b = snd (spec_guess p (Suc j)),
              cur_points = spec_polyline p (spec_guess p j),
              finalTheta = snd (snd (spec_station p (spec_guess p j) 100))\<rparr>"
    have "shootLoop (Suc (Suc n)) p (E p * I p) (L p / 100) st =
          shootLoop (Suc n) p (E p * I p) (L p / 100) ?st"
      using False by (simp only: shootLoop_Suc [OF Suc.prems]) simp
    also have "\<dots> = Inr \<lparr>guess_a = fst (spec_exit_guess p (spec_stop p (Suc j) (Suc n))),
          guess_b = snd (spec_exit_guess p (spec_stop p (Suc j) (Suc n))),
          cur_points = spec_polyline p (spec_guess p (spec_stop p (Suc j) (Suc n))),
          finalTheta = snd (snd (spec_station p (spec_guess p (spec_stop p (Suc j) (Suc n))) 100))\<rparr>"
      by (rule Suc.IH) simp_all
    finally show ?thesis
      by (simp only: spec_stop_shift [OF False])
  qed
qed


lemma shoot_spec:
  "shoot p =
     Inr \<lparr>guess_a = fst (spec_final_guess p),
          guess_b = snd (spec_final_guess p),
          cur_points = spec_polyline p (spec_guess p (spec_last_iteration p)),
          finalTheta = snd (snd (spec_station p (spec_guess p (spec_last_iteration p)) 100))\<rparr>"
proof -
  have n: "(15::nat) = Suc 14"
    by simp
  show ?thesis
    unfolding shoot_def spec_final_guess_def spec_last_iteration_def n
    by (rule shootLoop_spec) simp_all
qed

lemma solveNonlinearBeam_spec:
  assumes "E p * I p \<noteq> 0"
  shows "solveNonlinearBeam p =
     Inr \<lparr>points = spec_polyline p (spec_guess p (spec_last_iteration p)),
          tipX = fst (spec_station p (spec_guess p (spec_last_iteration p)) 100),
          tipY = fst (snd (spec_station p (spec_guess p (spec_last_iteration p)) 100)),
          tipAngle = snd (snd (spec_station p (spec_guess p (spec_last_iteration p)) 100)),
          maxStress =
            \<bar>(P p * fst (spec_final_guess p) + nP p * snd (spec_final_guess p) + M0 p)
               * c p / I p\<bar>,
          label = ''Nonlinear'', color = ''#ef4444'', prbParams = None\<rparr>"
  using assms
  by (simp add: solveNonlinearBeam_def shoot_spec lastPoint_spec_polyline Let_def)

lemma spec_stop_less:
  "spec_stop p j (Suc n) < j + Suc n"
proof (cases "find (\<lambda>k. spec_converged p (spec_guess p k)) [j..<j + Suc n]")
  case None
  then show ?thesis by (simp add: spec_stop_def)
next
  case (Some k)
  then obtain i where i: "i < length [j..<j + Suc n]" and k: "k = [j..<j + Suc n] ! i"
    unfolding find_Some_iff by blast
  from i have "i < Suc n"
    by (simp del: upt_Suc)
  then have "k = j + i"
    unfolding k by (simp del: upt_Suc)
  with \<open>i < Suc n\<close> show ?thesis
    unfolding spec_stop_def Some by simp
qed

lemma spec_last_iteration_less: "spec_last_iteration p < 15"
proof -
  have n: "(15::nat) = Suc 14"
    by simp
  show ?thesis
    using spec_stop_less [of p 0 14] unfolding spec_last_iteration_def n by simp
qed

lemma spec_stop_exit:
  "spec_converged p (spec_guess p (spec_stop p j n)) \<or> spec_stop p j n = j + n - 1"
proof (cases "find (\<lambda>k. spec_converged p (spec_guess p k)) [j..<j + n]")
  case None
  then show ?thesis by (simp add: spec_stop_def)
next
  case (Some k)
  then have "spec_converged p (spec_guess p k)"
    unfolding find_Some_iff by blast
  then show ?thesis
    unfolding spec_stop_def Some by simp
qed

lemma spec_stop_first:
  assumes "j \<le> k" and "k < spec_stop p j n"
  shows "\<not> spec_converged p (spec_guess p k)"
proof (cases "find (\<lambda>k. spec_converged p (spec_guess p k)) [j..<j + n]")
  case None
  from assms(2) have "k < j + n"
    unfolding spec_stop_def None by simp
  with assms(1) have "k \<in> set [j..<j + n]"
    by simp
  with None show ?thesis
    unfolding find_None_iff by blast
next
  case (Some m)
  then obtain i where i: "i < length [j..<j + n]" and m: "m = [j..<j + n] ! i"
    and f: "\<forall>l<i. \<not> spec_converged p (spec_guess p ([j..<j + n] ! l))"
    unfolding find_Some_iff by blast
  from i have "i < n" by simp
  then have mi: "m = j + i"
    unfolding m by simp
  from assms(2) have "k < j + i"
    unfolding spec_stop_def Some mi by simp
  with assms(1) have l: "k - j < i" and kk: "k = j + (k - j)"
    by simp_all
  from l \<open>i < n\<close> have "[j..<j + n] ! (k - j) = j + (k - j)"
    by simp
  with f l kk show ?thesis
    by metis
qed

subsection \<open>Lemmas: the pseudo-rigid-body solvers\<close>

lemma loadRatio_finite:
  "loadRatio p = Some (if P p \<noteq> 0 then nP p / P p else 0)"
  by (simp add: loadRatio_def jsDivide_def)

lemma selectConstants_defined:
  "\<exists>k. selectConstants t (loadRatio p) = Inr k"
  by (simp add: loadRatio_finite selectConstants_def)

lemma selectConstants_combined:
  "selectConstants PRB_1R_CANTILEVER_PNP (Some n) =
     Inr \<lparr>sel_gamma = max 0.7 (min 0.95 (gammaFit n)), sel_K_theta = 2.65, sel_c_theta = 1.24,
          sel_label = ''PRB 1R (nP)'', sel_color = ''#f59e0b''\<rparr>"
  by (simp add: selectConstants_def)

lemma solvePRB1R_shape:
  assumes "selectConstants t (loadRatio p) = Inr k"
  shows "\<exists>r. solvePRB1R p t = Inr r
     \<and> prbParams r =
         Some \<lparr>gamma = Some (sel_gamma k), k_theta = Some (sel_K_theta k),
               c_theta = Some (sel_c_theta k), links = None, stiffness_coeffs = None,
               stiffness_physicals = Some [sel_gamma k * sel_K_theta k * (E p * I p / L p)]\<rparr>
     \<and> points r =
         [\<lparr>pt_x = 0, pt_y = 0\<rparr>, \<lparr>pt_x = L p * (1 - sel_gamma k), pt_y = 0\<rparr>,
          \<lparr>pt_x = tipX r, pt_y = tipY r\<rparr>]
     \<and> label r = sel_label k \<and> color r = sel_color k \<and> maxStress r = 0"
  by (simp add: solvePRB1R_def Let_def assms)

lemma solvePRB3R_points:
  "\<exists>q1 q2 q3. points (solvePRB3R p) =
     [\<lparr>pt_x = 0, pt_y = 0\<rparr>, q1, q2, q3,
      \<lparr>pt_x = tipX (solvePRB3R p), pt_y = tipY (solvePRB3R p)\<rparr>]"
  by (simp add: solvePRB3R_def Let_def split: prod.split)

lemma clamp_bounds:
  "(0.7::real) \<le> max 0.7 (min 0.95 u) \<and> max 0.7 (min 0.95 u) \<le> (0.95::real)"
  by simp

subsection \<open>Lemmas: the unloaded beam\<close>

text \<open>With \<open>P = nP = M0 = 0\<close> the curvature vanishes: every Runge-Kutta step advances
  \<open>x\<close> by the step width and leaves \<open>y\<close> and \<open>\<theta>\<close> at zero, the first residual is zero,
  and the Newton and relaxation iterations stay at zero.\<close>

lemma unloaded_station:
  assumes "P p = 0" and "nP p = 0" and "M0 p = 0"
  shows "spec_station p g i = (real i * (L p / 100), 0, 0)"
proof (induction i)
  case 0
  show ?case by (simp add: spec_station_def)
next
  case (Suc i)
  have "spec_station p g (Suc i) =
      spec_rk4 (spec_ode p g) (L p / 100) (real i * (L p / 100), 0, 0)"
    using Suc by (simp add: spec_station_def)
  also have "\<dots> = (real (Suc i) * (L p / 100), 0, 0)"
    using assms
    by (simp add: spec_rk4_def spec_ode_def vadd_def vscale_def Let_def algebra_simps)
  finally show ?case .
qed

lemma unloaded_converged:
  assumes "P p = 0" and "nP p = 0" and "M0 p = 0"
  shows "spec_converged p (spec_guess p 0)"
  by (simp add: spec_converged_def spec_residual_def unloaded_station [OF assms])

lemma unloaded_last_iteration:
  assumes "P p = 0" and "nP p = 0" and "M0 p = 0"
  shows "spec_last_iteration p = 0"
proof -
  have n: "(15::nat) = Suc 14"
    by simp
  show ?thesis
    unfolding spec_last_iteration_def n
    by (rule spec_stop_converged) (rule unloaded_converged [OF assms])
qed

lemma unloaded_nonlinear:
  assumes "P p = 0" and "nP p = 0" and "M0 p = 0" and "E p * I p \<noteq> 0"
  shows "\<exists>r. solveNonlinearBeam p = Inr r \<and> tipX r = L p \<and> tipY r = 0 \<and> tipAngle r = 0
     \<and> points r = map (\<lambda>i. \<lparr>pt_x = real i * (L p / 100), pt_y = 0\<rparr>) [0..<101]"
  by (simp add: solveNonlinearBeam_spec [OF assms(4)] unloaded_last_iteration [OF assms(1-3)]
      unloaded_station [OF assms(1-3)] spec_polyline_def del: upt_Suc spec_guess.simps)

lemma unloaded_linear:
  assumes "P p = 0" and "M0 p = 0"
  shows "\<exists>r. solveLinearBeam p = Inr r \<and> tipX r = L p \<and> tipY r = 0 \<and> tipAngle r = 0
     \<and> points r = map (\<lambda>i. \<lparr>pt_x = (real i / 50) * L p, pt_y = 0\<rparr>) [0..<51]"
proof -
  have "linearPoint p (E p * I p) = (\<lambda>i. \<lparr>pt_x = (real i / 50) * L p, pt_y = 0\<rparr>)"
    using assms by (intro ext) (simp add: linearPoint_def Let_def)
  then show ?thesis
    using assms by (simp add: solveLinearBeam_result del: upt_Suc)
qed

lemma unloaded_newton:
  assumes "P p = 0" and "nP p = 0" and "M0 p = 0"
  shows "newtonLoop (Suc n) p K g 0 = 0"
  using assms by (simp add: Let_def)

lemma unloaded_prb1r:
  assumes "P p = 0" and "nP p = 0" and "M0 p = 0"
    and k: "selectConstants t (loadRatio p) = Inr k"
  shows "\<exists>r. solvePRB1R p t = Inr r \<and> tipX r = L p \<and> tipY r = 0 \<and> tipAngle r = 0
     \<and> points r =
         [\<lparr>pt_x = 0, pt_y = 0\<rparr>,
          \<lparr>pt_x = L p * (1 - sel_gamma k), pt_y = 0\<rparr>,
          \<lparr>pt_x = L p, pt_y = 0\<rparr>]"
proof -
  have n: "(30::nat) = Suc 29"
    by simp
  have th: "newtonLoop 30 p K g 0 = 0" for K g
    unfolding n by (rule unloaded_newton [OF assms(1-3)])
  show ?thesis
    by (simp add: solvePRB1R_def Let_def k th algebra_simps)
qed

lemma unloaded_relaxLoop:
  assumes "P p = 0" and "nP p = 0" and "M0 p = 0"
  shows "relaxLoop n p K1 K2 K3 (0, 0, 0) = (0, 0, 0)"
proof (induction n)
  case 0
  show ?case by simp
next
  case (Suc n)
  have "relaxStep p K1 K2 K3 (0, 0, 0) = (0, 0, 0)"
    using assms by (simp add: relaxStep_def Let_def)
  with Suc show ?case by simp
qed

lemma unloaded_prb3r:
  assumes "P p = 0" and "nP p = 0" and "M0 p = 0"
  shows "tipX (solvePRB3R p) = L p \<and> tipY (solvePRB3R p) = 0 \<and> tipAngle (solvePRB3R p) = 0
     \<and> points (solvePRB3R p) =
         [\<lparr>pt_x = 0, pt_y = 0\<rparr>,
          \<lparr>pt_x = g0 * L p, pt_y = 0\<rparr>,
          \<lparr>pt_x = g0 * L p + g1 * L p, pt_y = 0\<rparr>,
          \<lparr>pt_x = g0 * L p + g1 * L p + g2 * L p, pt_y = 0\<rparr>,
          \<lparr>pt_x = L p, pt_y = 0\<rparr>]"
proof -
  have s: "g0 * L p + g1 * L p + g2 * L p + g3 * L p = L p"
    by (simp add: g0_def g1_def g2_def g3_def)
  show ?thesis
    by (simp add: solvePRB3R_def Let_def unloaded_relaxLoop [OF assms] s)
qed

subsection \<open>Lemmas: bounds on the trajectory of the steel example\<close>

text \<open>For the steel example (\<open>EI = 2000\<close>, \<open>L = 1\<close>, \<open>P = 1\<close>, no other load) and a guess
  with \<open>\<bar>a\<bar> \<le> 1\<close>, the curvature \<open>(a - x) / 2000\<close> stays within \<open>1 / 1000\<close>, so every
  angle the integrator evaluates stays within \<open>1 / 2\<close>, where the cosine exceeds
  \<open>1 / 2\<close>: each step advances \<open>x\<close> by more than half the step width and at most the
  step width.\<close>

lemma cos_half_le: "\<bar>t\<bar> \<le> 1 / 2 \<Longrightarrow> cos (1 / 2) \<le> cos (t::real)"
proof -
  assume a: "\<bar>t\<bar> \<le> 1 / 2"
  have "(1 / 2 ::real) \<le> pi" using pi_ge_two by linarith
  then have "cos (1 / 2) \<le> cos \<bar>t\<bar>"
    using a by (intro cos_monotone_0_pi_le) simp_all
  then show ?thesis by (simp only: cos_abs_real)
qed

lemma cos_half_gt_half: "1 / 2 < cos (1 / 2 :: real)"
proof -
  have "(1 / 2 ::real) < pi / 3" using pi_ge_two by linarith
  moreover have "pi / 3 \<le> pi" using pi_gt_zero by linarith
  ultimately have "cos (pi / 3) < cos (1 / 2 :: real)"
    by (intro cos_monotone_0_pi) simp_all
  then show ?thesis by (simp only: cos_60)
qed

lemma steel_step:
  assumes a: "\<bar>a\<bar> \<le> 1" and x0: "0 \<le> x" and x1: "x \<le> 99 / 100"
    and t: "\<bar>theta\<bar> \<le> T" and T: "T \<le> 99 / 100000"
    and r: "rk4Step steel_example 2000 a b (1 / 100) (x, y, theta) = (x', y', theta')"
  shows "x + cos (1 / 2) * (1 / 100) \<le> x' \<and> x' \<le> x + 1 / 100 \<and> \<bar>theta'\<bar> \<le> T + 1 / 100000"
proof -
  define d1 where "d1 = (a - x) / 2000"
  define c1 where "c1 = cos theta"
  define t2 where "t2 = theta + d1 * (1 / 100) / 2"
  define x2 where "x2 = x + c1 * (1 / 100) / 2"
  define d2 where "d2 = (a - x2) / 2000"
  define c2 where "c2 = cos t2"
  define t3 where "t3 = theta + d2 * (1 / 100) / 2"
  define x3 where "x3 = x + c2 * (1 / 100) / 2"
  define d3 where "d3 = (a - x3) / 2000"
  define c3 where "c3 = cos t3"
  define t4 where "t4 = theta + d3 * (1 / 100)"
  define x4 where "x4 = x + c3 * (1 / 100)"
  define d4 where "d4 = (a - x4) / 2000"
  define c4 where "c4 = cos t4"
  have xe0: "x' = x + (1 / 100 / 6) * (c1 + 2 * c2 + 2 * c3 + c4)"
    and te0: "theta' = theta + (1 / 100 / 6) * (d1 + 2 * d2 + 2 * d3 + d4)"
    using r
    by (simp_all add: rk4Step_def getDerivatives_def Let_def steel_example_def
        d1_def c1_def t2_def x2_def d2_def c2_def t3_def x3_def d3_def c3_def
        t4_def x4_def d4_def c4_def)
  have xe: "600 * x' = 600 * x + c1 + 2 * c2 + 2 * c3 + c4"
    unfolding xe0 by simp
  have te: "600 * theta' = 600 * theta + d1 + 2 * d2 + 2 * d3 + d4"
    unfolding te0 by simp
  have de: "2000 * d1 = a - x" "2000 * d2 = a - x2" "2000 * d3 = a - x3" "2000 * d4 = a - x4"
    by (simp_all add: d1_def d2_def d3_def d4_def)
  have xs: "200 * x2 = 200 * x + c1" "200 * x3 = 200 * x + c2" "100 * x4 = 100 * x + c3"
    by (simp_all add: x2_def x3_def x4_def)
  have ts: "200 * t2 = 200 * theta + d1" "200 * t3 = 200 * theta + d2"
    "100 * t4 = 100 * theta + d3"
    by (simp_all add: t2_def t3_def t4_def)
  define kap where "kap = cos (1 / 2 :: real)"
  have k0: "0 < kap" using cos_half_gt_half unfolding kap_def by linarith
  have cb: "\<bar>u\<bar> \<le> 1 / 2 \<Longrightarrow> kap \<le> cos u \<and> cos u \<le> 1" for u :: real
    by (simp add: kap_def cos_half_le)
  have b1: "\<bar>d1\<bar> \<le> 1 / 1000"
    using a x0 x1 de(1) by linarith
  have "\<bar>theta\<bar> \<le> 1 / 2" using t T by linarith
  then have c1b: "kap \<le> c1 \<and> c1 \<le> 1"
    unfolding c1_def by (rule cb)
  have "\<bar>t2\<bar> \<le> 1 / 2" using t T b1 ts(1) by linarith
  then have c2b: "kap \<le> c2 \<and> c2 \<le> 1"
    unfolding c2_def by (rule cb)
  have b2: "\<bar>d2\<bar> \<le> 1 / 1000"
    using a x0 x1 c1b k0 de(2) xs(1) by linarith
  have "\<bar>t3\<bar> \<le> 1 / 2" using t T b2 ts(2) by linarith
  then have c3b: "kap \<le> c3 \<and> c3 \<le> 1"
    unfolding c3_def by (rule cb)
  have b3: "\<bar>d3\<bar> \<le> 1 / 1000"
    using a x0 x1 c2b k0 de(3) xs(2) by linarith
  have "\<bar>t4\<bar> \<le> 1 / 2" using t T b3 ts(3) by linarith
  then have c4b: "kap \<le> c4 \<and> c4 \<le> 1"
    unfolding c4_def by (rule cb)
  have b4: "\<bar>d4\<bar> \<le> 1 / 1000"
    using a x0 x1 c3b k0 de(4) xs(3) by linarith
  have "100 * x + kap \<le> 100 * x'"
    using c1b c2b c3b c4b xe by linarith
  then have "x + cos (1 / 2) * (1 / 100) \<le> x'"
    unfolding kap_def by simp
  moreover have "x' \<le> x + 1 / 100"
    using c1b c2b c3b c4b xe by linarith
  moreover have "\<bar>theta'\<bar> \<le> T + 1 / 100000"
    using t b1 b2 b3 b4 te by linarith
  ultimately show ?thesis by simp
qed

lemma steel_EI: "E steel_example * I steel_example = 2000"
  by (simp add: steel_example_def)

lemma steel_ds: "L steel_example / 100 = 1 / 100"
  by (simp add: steel_example_def)

lemma spec_station_Suc:
  "spec_station p g (Suc i) = rk4Step p (E p * I p) (fst g) (snd g) (L p / 100) (spec_station p g i)"
  by (simp add: spec_station_def rk4Step_spec_fun)

lemma steel_station_bounds:
  assumes a: "\<bar>fst g\<bar> \<le> 1" and i: "i \<le> 100"
  shows "cos (1 / 2) * (real i / 100) \<le> fst (spec_station steel_example g i)
     \<and> fst (spec_station steel_example g i) \<le> real i / 100
     \<and> \<bar>snd (snd (spec_station steel_example g i))\<bar> \<le> real i / 100000"
  using i
proof (induction i)
  case 0
  show ?case by (simp add: spec_station_def)
next
  case (Suc i)
  obtain x y theta where s: "spec_station steel_example g i = (x, y, theta)"
    by (cases "spec_station steel_example g i") auto
  obtain x' y' theta' where s': "spec_station steel_example g (Suc i) = (x', y', theta')"
    by (cases "spec_station steel_example g (Suc i)") auto
  from Suc.prems have i99: "real i \<le> 99"
    by simp
  from Suc.IH Suc.prems s
  have lo: "cos (1 / 2) * (real i / 100) \<le> x" and hi: "x \<le> real i / 100"
    and th: "\<bar>theta\<bar> \<le> real i / 100000"
    by simp_all
  have k0: "0 \<le> cos (1 / 2 :: real)"
    using cos_half_gt_half by linarith
  have x0: "0 \<le> x"
  proof -
    have "0 \<le> cos (1 / 2) * (real i / 100)"
      using k0 by simp
    with lo show ?thesis by linarith
  qed
  have x1: "x \<le> 99 / 100"
    using hi i99 by linarith
  have T: "real i / 100000 \<le> 99 / 100000"
    using i99 by simp
  have r: "rk4Step steel_example 2000 (fst g) (snd g) (1 / 100) (x, y, theta) = (x', y', theta')"
    using spec_station_Suc [of steel_example g i] unfolding s s' steel_EI steel_ds by simp
  from steel_step [OF a x0 x1 th T r]
  have st: "x + cos (1 / 2) * (1 / 100) \<le> x'" "x' \<le> x + 1 / 100"
    "\<bar>theta'\<bar> \<le> real i / 100000 + 1 / 100000"
    by simp_all
  have e: "cos (1 / 2) * (real (Suc i) / 100) = cos (1 / 2) * (real i / 100) + cos (1 / 2) * (1 / 100)"
    by (simp add: algebra_simps)
  have "cos (1 / 2) * (real (Suc i) / 100) \<le> x'"
    unfolding e using lo st(1) by linarith
  moreover have "x' \<le> real (Suc i) / 100"
    using hi st(2) by simp
  moreover have "\<bar>theta'\<bar> \<le> real (Suc i) / 100000"
    using st(3) by simp
  ultimately show ?case
    unfolding s' by simp
qed

lemma steel_tip_bounds:
  assumes "\<bar>fst g\<bar> \<le> 1"
  shows "1 / 2 < fst (spec_station steel_example g 100)"
    and "fst (spec_station steel_example g 100) \<le> 1"
  using steel_station_bounds [OF assms, of 100] cos_half_gt_half by simp_all

lemma steel_guess_bounds:
  "1 / 2 < fst (spec_guess steel_example k) \<and> fst (spec_guess steel_example k) \<le> 1"
proof (induction k)
  case 0
  show ?case by (simp add: steel_example_def)
next
  case (Suc k)
  define u where "u = fst (spec_guess steel_example k)"
  define v where "v = fst (spec_station steel_example (spec_guess steel_example k) 100)"
  from Suc have u: "1 / 2 < u" "u \<le> 1"
    unfolding u_def by simp_all
  then have "\<bar>fst (spec_guess steel_example k)\<bar> \<le> 1"
    unfolding u_def by linarith
  from steel_tip_bounds [OF this] have v: "1 / 2 < v" "v \<le> 1"
    unfolding v_def by simp_all
  have "fst (spec_guess steel_example (Suc k)) = u + 0.5 * (v - u)"
    by (simp add: spec_residual_def u_def v_def)
  also have "\<dots> = (u + v) / 2"
    by argo
  finally have "2 * fst (spec_guess steel_example (Suc k)) = u + v"
    by simp
  with u v show ?case
    by linarith
qed

lemma steel_final_guess_bounds:
  "1 / 2 < fst (spec_final_guess steel_example) \<and> fst (spec_final_guess steel_example) \<le> 1"
proof (cases "spec_converged steel_example
    (spec_guess steel_example (spec_last_iteration steel_example))")
  case True
  then have "spec_final_guess steel_example =
      spec_guess steel_example (spec_last_iteration steel_example)"
    by (simp add: spec_final_guess_def spec_exit_guess_def)
  then show ?thesis
    by (simp only: steel_guess_bounds)
next
  case False
  then have "spec_final_guess steel_example =
      spec_guess steel_example (Suc (spec_last_iteration steel_example))"
    by (simp add: spec_final_guess_def spec_exit_guess_def)
  then show ?thesis
    by (simp only: steel_guess_bounds)
qed


section \<open>The claims\<close>

text \<open>
  \<^bold>\<open>C1\<close>. For every beam with \<open>EI \<noteq> 0\<close>, \<open>solveNonlinearBeam\<close> returns a result (it does
  not throw) that is the shooting algorithm's: the guess sequence starts at \<open>(L, 0)\<close> and
  each next guess adds half the residual (\<open>spec_guess\<close>); every outer iteration integrates
  the elastica system from \<open>(0, 0, 0)\<close> by 100 equal fourth-order Runge-Kutta steps of
  width \<open>L / 100\<close> (\<open>spec_station\<close>); the last iteration \<open>spec_last_iteration\<close> is one of
  the 15 numbered \<open>0..14\<close>, no earlier iteration passed the exit test (both residual
  components below \<open>1e-6\<close> in absolute value), and it either passes the test or is
  iteration 14; the returned polyline is that iteration's trajectory, 101 points from the
  origin on, the tip is its last station and \<open>tipAngle\<close> its integrated \<open>\<theta>(L)\<close>.
\<close>

theorem C1_shooting_algorithm:
  assumes "E p * I p \<noteq> 0"
  shows "\<exists>r. solveNonlinearBeam p = Inr r
     \<and> spec_guess p 0 = (L p, 0)
     \<and> spec_last_iteration p < 15
     \<and> (\<forall>k. k < spec_last_iteration p \<longrightarrow> \<not> spec_converged p (spec_guess p k))
     \<and> (spec_converged p (spec_guess p (spec_last_iteration p)) \<or> spec_last_iteration p = 14)
     \<and> points r = spec_polyline p (spec_guess p (spec_last_iteration p))
     \<and> length (points r) = 101
     \<and> tipX r = fst (spec_station p (spec_guess p (spec_last_iteration p)) 100)
     \<and> tipY r = fst (snd (spec_station p (spec_guess p (spec_last_iteration p)) 100))
     \<and> tipAngle r = snd (snd (spec_station p (spec_guess p (spec_last_iteration p)) 100))"
proof -
  have first: "\<forall>k. k < spec_last_iteration p \<longrightarrow> \<not> spec_converged p (spec_guess p k)"
    unfolding spec_last_iteration_def using spec_stop_first [of 0 _ p 15] by simp
  have exit: "spec_converged p (spec_guess p (spec_last_iteration p)) \<or> spec_last_iteration p = 14"
    unfolding spec_last_iteration_def using spec_stop_exit [of p 0 15] by simp
  show ?thesis
    using assms first exit
    by (simp add: solveNonlinearBeam_spec spec_last_iteration_less length_spec_polyline)
qed

theorem C1_shooting_algorithm_witness:
  "E steel_example * I steel_example \<noteq> 0
   \<and> (\<exists>r. solveNonlinearBeam steel_example = Inr r
     \<and> spec_guess steel_example 0 = (L steel_example, 0)
     \<and> spec_last_iteration steel_example < 15
     \<and> points r =
         spec_polyline steel_example (spec_guess steel_example (spec_last_iteration steel_example))
     \<and> length (points r) = 101
     \<and> tipAngle r =
         snd (snd (spec_station steel_example
           (spec_guess steel_example (spec_last_iteration steel_example)) 100)))"
proof -
  have h: "E steel_example * I steel_example \<noteq> 0"
    by (simp add: steel_example_def)
  from C1_shooting_algorithm [OF h] obtain r where
    "solveNonlinearBeam steel_example = Inr r"
    "spec_guess steel_example 0 = (L steel_example, 0)"
    "spec_last_iteration steel_example < 15"
    "points r =
       spec_polyline steel_example (spec_guess steel_example (spec_last_iteration steel_example))"
    "length (points r) = 101"
    "tipAngle r =
       snd (snd (spec_station steel_example
         (spec_guess steel_example (spec_last_iteration steel_example)) 100))"
    by blast
  with h show ?thesis
    by blast
qed

text \<open>
  \<^bold>\<open>C2\<close>. For every beam with \<open>EI \<noteq> 0\<close>, \<open>solveLinearBeam\<close> returns the polyline of
  the 51 stations \<open>x = (i / 50) L\<close> with deflection
  \<open>y(x) = P x\<^sup>2 / (6 EI) \<cdot> (3 L - x) + M0 x\<^sup>2 / (2 EI)\<close>, the tip \<open>(L, y(L))\<close>, the tip
  slope \<open>P L\<^sup>2 / (2 EI) + M0 L / EI\<close> and \<open>maxStress = \<bar>(P L + M0) c / I\<bar>\<close>; for the
  steel example (\<open>E = 200e9\<close>, \<open>I = 1e-8\<close>, \<open>L = 1\<close>, \<open>P = 1\<close>, no other load) it yields
  \<open>tipY = 1 / (3 \<cdot> 200e9 \<cdot> 1e-8)\<close> and \<open>tipAngle = 2.5e-4\<close>.
\<close>

theorem C2_linear_closed_form:
  "(E p * I p \<noteq> 0 \<longrightarrow>
     (\<exists>r. solveLinearBeam p = Inr r
        \<and> points r = spec_linear_polyline p
        \<and> length (points r) = 51
        \<and> tipX r = L p
        \<and> tipY r = spec_deflection (P p) (M0 p) (E p * I p) (L p) (L p)
        \<and> tipAngle r = P p * (L p)\<^sup>2 / (2 * (E p * I p)) + M0 p * L p / (E p * I p)
        \<and> maxStress r = \<bar>(P p * L p + M0 p) * c p / I p\<bar>))
   \<and> (\<exists>r. solveLinearBeam steel_example = Inr r
        \<and> tipY r = 1 / (3 * 200000000000 * (1 / 100000000))
        \<and> tipAngle r = 25 / 100000)"
proof -
  have "linearPoint p (E p * I p) =
      (\<lambda>i. \<lparr>pt_x = (real i / 50) * L p,
            pt_y = spec_deflection (P p) (M0 p) (E p * I p) (L p) ((real i / 50) * L p)\<rparr>)"
    by (rule ext) (rule linearPoint_spec)
  then have pts: "map (linearPoint p (E p * I p)) [0..<51] = spec_linear_polyline p"
    unfolding spec_linear_polyline_def by (rule arg_cong)
  have tip: "pt_y (linearPoint p (E p * I p) 50) =
      spec_deflection (P p) (M0 p) (E p * I p) (L p) (L p)"
    by (simp add: linearPoint_spec)
  have len: "length (spec_linear_polyline p) = 51"
    by (simp add: spec_linear_polyline_def del: upt_Suc)
  have general: "\<exists>r. solveLinearBeam p = Inr r
        \<and> points r = spec_linear_polyline p
        \<and> length (points r) = 51
        \<and> tipX r = L p
        \<and> tipY r = spec_deflection (P p) (M0 p) (E p * I p) (L p) (L p)
        \<and> tipAngle r = P p * (L p)\<^sup>2 / (2 * (E p * I p)) + M0 p * L p / (E p * I p)
        \<and> maxStress r = \<bar>(P p * L p + M0 p) * c p / I p\<bar>"
    by (simp add: solveLinearBeam_result pts tip len power2_eq_square del: upt_Suc)
  have example: "\<exists>r. solveLinearBeam steel_example = Inr r
        \<and> tipY r = 1 / (3 * 200000000000 * (1 / 100000000))
        \<and> tipAngle r = 25 / 100000"
    by (simp add: solveLinearBeam_result linearPoint_def Let_def steel_example_def del: upt_Suc)
  from general example show ?thesis
    by blast
qed

theorem C2_linear_closed_form_witness:
  "E steel_example * I steel_example \<noteq> 0
   \<and> (\<exists>r. solveLinearBeam steel_example = Inr r
        \<and> points r = spec_linear_polyline steel_example
        \<and> tipX r = 1
        \<and> tipY r = 1 / 6000
        \<and> tipAngle r = 1 / 4000
        \<and> maxStress r = 1000000)"
proof -
  have h: "E steel_example * I steel_example \<noteq> 0"
    by (simp add: steel_example_def)
  from C2_linear_closed_form [of steel_example] h obtain r where
    r: "solveLinearBeam steel_example = Inr r"
      "points r = spec_linear_polyline steel_example"
      "tipX r = L steel_example"
      "tipY r = spec_deflection (P steel_example) (M0 steel_example)
         (E steel_example * I steel_example) (L steel_example) (L steel_example)"
      "tipAngle r = P steel_example * (L steel_example)\<^sup>2
           / (2 * (E steel_example * I steel_example))
         + M0 steel_example * L steel_example / (E steel_example * I steel_example)"
      "maxStress r = \<bar>(P steel_example * L steel_example + M0 steel_example)
         * c steel_example / I steel_example\<bar>"
    by blast
  have "tipX r = 1" "tipY r = 1 / 6000" "tipAngle r = 1 / 4000" "maxStress r = 1000000"
    using r(3-6) by (simp_all add: steel_example_def spec_deflection_def)
  with h r(1,2) show ?thesis
    by blast
qed

text \<open>
  \<^bold>\<open>C3\<close>. For every beam with \<open>E \<cdot> I = 0\<close>, \<open>solveNonlinearBeam\<close> returns at once,
  without throwing, the empty result: no points and \<open>tipX\<close>, \<open>tipY\<close>, \<open>tipAngle\<close> and
  \<open>maxStress\<close> all zero.
\<close>

theorem C3_zero_stiffness_empty_result:
  assumes "E p * I p = 0"
  shows "solveNonlinearBeam p =
     Inr \<lparr>points = [], tipX = 0, tipY = 0, tipAngle = 0, maxStress = 0,
          label = ''Nonlinear'', color = ''#ef4444'', prbParams = None\<rparr>"
  using assms by (simp add: solveNonlinearBeam_def)

theorem C3_zero_stiffness_empty_result_witness:
  "E zero_stiffness_example * I zero_stiffness_example = 0
   \<and> solveNonlinearBeam zero_stiffness_example =
       Inr \<lparr>points = [], tipX = 0, tipY = 0, tipAngle = 0, maxStress = 0,
            label = ''Nonlinear'', color = ''#ef4444'', prbParams = None\<rparr>"
proof -
  have h: "E zero_stiffness_example * I zero_stiffness_example = 0"
    by (simp add: zero_stiffness_example_def)
  from h C3_zero_stiffness_empty_result [OF h] show ?thesis
    by (rule conjI)
qed

text \<open>
  \<^bold>\<open>C4\<close>, as amended. For every beam with \<open>EI \<noteq> 0\<close>, the \<open>maxStress\<close> returned by
  \<open>solveNonlinearBeam\<close> is \<open>\<bar>(P a + nP b + M0) c / I\<bar>\<close> for the guess \<open>(a, b)\<close> held when
  the outer loop is left: the moment \<open>M = P (a - x) + nP (b - y) + M0\<close> taken at the
  fixed support, where \<open>x = y = 0\<close>, not at the tip station.
\<close>

theorem C4_max_stress_root_moment:
  assumes "E p * I p \<noteq> 0"
  shows "\<exists>st r. shoot p = Inr st \<and> solveNonlinearBeam p = Inr r
     \<and> (guess_a st, guess_b st) = spec_final_guess p
     \<and> maxStress r = \<bar>(P p * (guess_a st - 0) + nP p * (guess_b st - 0) + M0 p) * c p / I p\<bar>"
  using assms by (simp add: solveNonlinearBeam_spec shoot_spec)

theorem C4_max_stress_root_moment_witness:
  "E steel_example * I steel_example \<noteq> 0
   \<and> (\<exists>st r. shoot steel_example = Inr st \<and> solveNonlinearBeam steel_example = Inr r
        \<and> maxStress r = \<bar>guess_a st * 1000000\<bar>)"
proof -
  have h: "E steel_example * I steel_example \<noteq> 0"
    by (simp add: steel_example_def)
  from C4_max_stress_root_moment [OF h] obtain st r where
    r: "shoot steel_example = Inr st" "solveNonlinearBeam steel_example = Inr r"
      "maxStress r = \<bar>(P steel_example * (guess_a st - 0) + nP steel_example * (guess_b st - 0)
          + M0 steel_example) * c steel_example / I steel_example\<bar>"
    by blast
  from r(3) have "maxStress r = \<bar>guess_a st * 1000000\<bar>"
    by (simp add: steel_example_def)
  with h r(1,2) show ?thesis
    by blast
qed

text \<open>
  The claim as stated fails on the steel example: the final guess and the integrated tip
  both have their \<open>x\<close> in \<open>(1/2, 1]\<close>, so the moment at the tip station is below \<open>1 / 2\<close>
  in absolute value while the code's \<open>P a\<close> exceeds \<open>1 / 2\<close>.
\<close>

theorem C4_max_stress_counterexample:
  "\<not> isl (shoot steel_example) \<and> \<not> isl (solveNonlinearBeam steel_example)
   \<and> maxStress (projr (solveNonlinearBeam steel_example)) \<noteq>
       \<bar>tipStationMoment steel_example (projr (shoot steel_example))
          (projr (solveNonlinearBeam steel_example))\<bar>
       * c steel_example / I steel_example
   \<and> maxStress (projr (solveNonlinearBeam steel_example)) \<noteq>
       \<bar>tipStationMoment steel_example (projr (shoot steel_example))
          (projr (solveNonlinearBeam steel_example))
        * c steel_example / I steel_example\<bar>"
proof -
  define a where "a = fst (spec_final_guess steel_example)"
  define v where "v = fst (spec_station steel_example
      (spec_guess steel_example (spec_last_iteration steel_example)) 100)"
  have h: "E steel_example * I steel_example \<noteq> 0"
    by (simp add: steel_example_def)
  have a: "1 / 2 < a" "a \<le> 1"
    using steel_final_guess_bounds unfolding a_def by simp_all
  have "\<bar>fst (spec_guess steel_example (spec_last_iteration steel_example))\<bar> \<le> 1"
    using steel_guess_bounds [of "spec_last_iteration steel_example"] by linarith
  from steel_tip_bounds [OF this] have v: "1 / 2 < v" "v \<le> 1"
    unfolding v_def by simp_all
  have ms: "maxStress (projr (solveNonlinearBeam steel_example)) = \<bar>a * 1000000\<bar>"
    by (simp add: solveNonlinearBeam_spec [OF h] a_def) (simp add: steel_example_def)
  have tm: "tipStationMoment steel_example (projr (shoot steel_example))
          (projr (solveNonlinearBeam steel_example)) = a - v"
    by (simp add: solveNonlinearBeam_spec [OF h] shoot_spec tipStationMoment_def a_def v_def)
       (simp add: steel_example_def)
  have ci: "c steel_example = 1 / 100" "I steel_example = 1 / 100000000"
    by (simp_all add: steel_example_def)
  have lt: "\<bar>a - v\<bar> < a"
    using a v by linarith
  have pos: "\<bar>a * 1000000\<bar> = a * 1000000"
    using a by simp
  have d: "\<bar>a * 1000000\<bar> \<noteq> \<bar>a - v\<bar> * 1000000"
    unfolding pos using lt by simp
  have "\<not> isl (shoot steel_example)"
    by (simp add: shoot_spec)
  moreover have "\<not> isl (solveNonlinearBeam steel_example)"
    by (simp add: solveNonlinearBeam_spec [OF h])
  moreover have "maxStress (projr (solveNonlinearBeam steel_example)) \<noteq>
       \<bar>tipStationMoment steel_example (projr (shoot steel_example))
          (projr (solveNonlinearBeam steel_example))\<bar>
       * c steel_example / I steel_example"
    unfolding ms tm ci using d by simp
  moreover have "maxStress (projr (solveNonlinearBeam steel_example)) \<noteq>
       \<bar>tipStationMoment steel_example (projr (shoot steel_example))
          (projr (solveNonlinearBeam steel_example))
        * c steel_example / I steel_example\<bar>"
    unfolding ms tm ci using d by (simp add: abs_mult)
  ultimately show ?thesis
    by blast
qed

text \<open>
  \<^bold>\<open>C5\<close>. In the combined-force variant \<open>PRB_1R_CANTILEVER_PNP\<close>, \<open>solvePRB1R\<close> reports
  a \<open>gamma\<close> that is the clamp to \<open>[0.70, 0.95]\<close> of a piecewise-linear function of the
  load ratio \<open>n\<close> (\<open>0.8521 - 0.0183 n\<close> when \<open>n > -1.83\<close>, \<open>0.9123 + 0.0146 n\<close> otherwise),
  hence always within \<open>[0.70, 0.95]\<close>, with \<open>K_theta = 2.65\<close> and \<open>c_theta = 1.24\<close>; the
  ratio is \<open>nP / P\<close> whenever \<open>P \<noteq> 0\<close>.
\<close>

theorem C5_combined_force_gamma:
  "\<exists>r pp g n. solvePRB1R p PRB_1R_CANTILEVER_PNP = Inr r
     \<and> prbParams r = Some pp
     \<and> gamma pp = Some g
     \<and> loadRatio p = Some n
     \<and> g = max 0.7 (min 0.95
           (if n > - 1.83 then 0.8521 - 0.0183 * n else 0.9123 + 0.0146 * n))
     \<and> 0.7 \<le> g \<and> g \<le> 0.95
     \<and> k_theta pp = Some 2.65
     \<and> c_theta pp = Some 1.24
     \<and> (P p \<noteq> 0 \<longrightarrow> n = nP p / P p)"
proof -
  define n where "n = (if P p \<noteq> 0 then nP p / P p else 0)"
  define g where "g = max 0.7 (min 0.95 (gammaFit n))"
  have lr: "loadRatio p = Some n"
    unfolding n_def by (rule loadRatio_finite)
  have sel: "selectConstants PRB_1R_CANTILEVER_PNP (loadRatio p) =
      Inr \<lparr>sel_gamma = g, sel_K_theta = 2.65, sel_c_theta = 1.24,
           sel_label = ''PRB 1R (nP)'', sel_color = ''#f59e0b''\<rparr>"
    unfolding lr g_def by (rule selectConstants_combined)
  have fit: "g = max 0.7 (min 0.95
           (if n > - 1.83 then 0.8521 - 0.0183 * n else 0.9123 + 0.0146 * n))"
    unfolding g_def gammaFit_def by (rule refl)
  have bounds: "0.7 \<le> g \<and> g \<le> 0.95"
    unfolding g_def by (rule clamp_bounds)
  have ratio: "P p \<noteq> 0 \<longrightarrow> n = nP p / P p"
    by (simp add: n_def)
  from solvePRB1R_shape [OF sel] obtain r where
    "solvePRB1R p PRB_1R_CANTILEVER_PNP = Inr r"
    "\<exists>pp. prbParams r = Some pp
       \<and> gamma pp = Some g \<and> k_theta pp = Some 2.65 \<and> c_theta pp = Some 1.24"
    by auto
  with lr fit bounds ratio show ?thesis
    by blast
qed

theorem C5_combined_force_gamma_witness:
  "P ratio_ten_example \<noteq> 0
   \<and> nP ratio_ten_example / P ratio_ten_example = 10
   \<and> loadRatio ratio_ten_example = Some 10
   \<and> (\<exists>r pp. solvePRB1R ratio_ten_example PRB_1R_CANTILEVER_PNP = Inr r
        \<and> prbParams r = Some pp
        \<and> gamma pp = Some 0.7 \<and> k_theta pp = Some 2.65 \<and> c_theta pp = Some 1.24)"
proof -
  have h: "P ratio_ten_example \<noteq> 0" and q: "nP ratio_ten_example / P ratio_ten_example = 10"
    by (simp_all add: ratio_ten_example_def)
  from C5_combined_force_gamma [of ratio_ten_example] h obtain r pp g n where
    r: "solvePRB1R ratio_ten_example PRB_1R_CANTILEVER_PNP = Inr r"
      "prbParams r = Some pp"
      "gamma pp = Some g"
      "loadRatio ratio_ten_example = Some n"
      "g = max 0.7 (min 0.95
           (if n > - 1.83 then 0.8521 - 0.0183 * n else 0.9123 + 0.0146 * n))"
      "k_theta pp = Some 2.65" "c_theta pp = Some 1.24"
      "n = nP ratio_ten_example / P ratio_ten_example"
    by blast
  from r(8) q have n: "n = 10"
    by simp
  from r(5) have "g = 0.7"
    unfolding n by simp
  with r(3) have "gamma pp = Some 0.7"
    by simp
  with h q r(1,2,4,6,7) n show ?thesis
    by blast
qed

text \<open>
  \<^bold>\<open>C6\<close>, as amended. For every beam with \<open>P = 0\<close>, \<open>nP = 0\<close>, \<open>M0 = 0\<close> and with
  \<open>EI \<noteq> 0\<close> and \<open>L \<noteq> 0\<close>, all four solvers (\<open>solvePRB1R\<close> for every selector) return
  \<open>tipX = L\<close>, \<open>tipY = 0\<close>, \<open>tipAngle = 0\<close> and a polyline on the x-axis from the origin
  to \<open>(L, 0)\<close>. The data model has \<open>L > 0\<close>, and both pseudo-rigid-body solvers
  divide by \<open>L\<close>.
\<close>

theorem C6_no_load_straight:
  assumes "P p = 0" and "nP p = 0" and "M0 p = 0" and "E p * I p \<noteq> 0" and "L p \<noteq> 0"
  shows "(\<exists>r. solveLinearBeam p = Inr r \<and> tipX r = L p \<and> tipY r = 0 \<and> tipAngle r = 0
        \<and> points r = map (\<lambda>i. \<lparr>pt_x = (real i / 50) * L p, pt_y = 0\<rparr>) [0..<51])
     \<and> (\<exists>r. solveNonlinearBeam p = Inr r \<and> tipX r = L p \<and> tipY r = 0 \<and> tipAngle r = 0
        \<and> points r = map (\<lambda>i. \<lparr>pt_x = real i * (L p / 100), pt_y = 0\<rparr>) [0..<101])
     \<and> (\<exists>r g. solvePRB1R p t = Inr r \<and> tipX r = L p \<and> tipY r = 0 \<and> tipAngle r = 0
        \<and> points r =
            [\<lparr>pt_x = 0, pt_y = 0\<rparr>, \<lparr>pt_x = L p * (1 - g), pt_y = 0\<rparr>, \<lparr>pt_x = L p, pt_y = 0\<rparr>])
     \<and> (tipX (solvePRB3R p) = L p \<and> tipY (solvePRB3R p) = 0 \<and> tipAngle (solvePRB3R p) = 0
        \<and> points (solvePRB3R p) =
            [\<lparr>pt_x = 0, pt_y = 0\<rparr>,
             \<lparr>pt_x = g0 * L p, pt_y = 0\<rparr>,
             \<lparr>pt_x = g0 * L p + g1 * L p, pt_y = 0\<rparr>,
             \<lparr>pt_x = g0 * L p + g1 * L p + g2 * L p, pt_y = 0\<rparr>,
             \<lparr>pt_x = L p, pt_y = 0\<rparr>])"
proof -
  obtain k where k: "selectConstants t (loadRatio p) = Inr k"
    using selectConstants_defined by blast
  show ?thesis
    using unloaded_linear [OF assms(1,3)] unloaded_nonlinear [OF assms(1-4)]
      unloaded_prb1r [OF assms(1-3) k] unloaded_prb3r [OF assms(1-3)]
    by blast
qed

theorem C6_no_load_straight_witness:
  "P unloaded_example = 0 \<and> nP unloaded_example = 0 \<and> M0 unloaded_example = 0
   \<and> E unloaded_example * I unloaded_example \<noteq> 0 \<and> L unloaded_example \<noteq> 0
   \<and> (\<exists>r. solveLinearBeam unloaded_example = Inr r \<and> tipX r = 1 \<and> tipY r = 0
        \<and> tipAngle r = 0)
   \<and> (\<exists>r. solveNonlinearBeam unloaded_example = Inr r \<and> tipX r = 1 \<and> tipY r = 0
        \<and> tipAngle r = 0)
   \<and> (\<exists>r. solvePRB1R unloaded_example PRB_1R_CANTILEVER_P = Inr r \<and> tipX r = 1 \<and> tipY r = 0
        \<and> tipAngle r = 0)
   \<and> tipX (solvePRB3R unloaded_example) = 1
   \<and> tipY (solvePRB3R unloaded_example) = 0"
proof -
  have h: "P unloaded_example = 0" "nP unloaded_example = 0" "M0 unloaded_example = 0"
    "E unloaded_example * I unloaded_example \<noteq> 0" "L unloaded_example \<noteq> 0"
    by (simp_all add: unloaded_example_def)
  have l: "L unloaded_example = 1"
    by (simp add: unloaded_example_def)
  from C6_no_load_straight [OF h, of PRB_1R_CANTILEVER_P] h show ?thesis
    unfolding l by blast
qed

text \<open>
  The claim as stated, regardless of \<open>E\<close> and \<open>I\<close>, fails at \<open>I = 0\<close>: the unloaded beam
  of length 1 gets the empty result of the \<open>EI = 0\<close> guard, with \<open>tipX = 0\<close> and no
  point.
\<close>

theorem C6_no_load_counterexample:
  "P zero_stiffness_example = 0 \<and> nP zero_stiffness_example = 0 \<and> M0 zero_stiffness_example = 0
   \<and> solveNonlinearBeam zero_stiffness_example =
       Inr \<lparr>points = [], tipX = 0, tipY = 0, tipAngle = 0, maxStress = 0,
            label = ''Nonlinear'', color = ''#ef4444'', prbParams = None\<rparr>
   \<and> tipX (projr (solveNonlinearBeam zero_stiffness_example)) \<noteq> L zero_stiffness_example"
  by (simp add: solveNonlinearBeam_def zero_stiffness_example_def)

text \<open>
  \<^bold>\<open>C7\<close>. The length of the polyline is fixed: \<open>solveLinearBeam\<close> returns 51 points;
  \<open>solveNonlinearBeam\<close> returns at most 101, namely 101 when \<open>EI \<noteq> 0\<close> and none when
  \<open>EI = 0\<close>; \<open>solvePRB1R\<close> returns the 3 points origin, pivot \<open>(L (1 - gamma), 0)\<close> and
  tip; \<open>solvePRB3R\<close> returns 5 points, from the origin to the tip.
\<close>

theorem C7_polyline_lengths:
  "(\<exists>r. solveLinearBeam p = Inr r \<and> length (points r) = 51)
   \<and> (\<exists>r. solveNonlinearBeam p = Inr r
        \<and> length (points r) = (if E p * I p = 0 then 0 else 101)
        \<and> length (points r) \<le> 101)
   \<and> (\<exists>r g. solvePRB1R p t = Inr r
        \<and> length (points r) = 3
        \<and> map_option gamma (prbParams r) = Some (Some g)
        \<and> points r =
            [\<lparr>pt_x = 0, pt_y = 0\<rparr>,
             \<lparr>pt_x = L p * (1 - g), pt_y = 0\<rparr>,
             \<lparr>pt_x = tipX r, pt_y = tipY r\<rparr>])
   \<and> (\<exists>q1 q2 q3. length (points (solvePRB3R p)) = 5
        \<and> points (solvePRB3R p) =
            [\<lparr>pt_x = 0, pt_y = 0\<rparr>, q1, q2, q3,
             \<lparr>pt_x = tipX (solvePRB3R p), pt_y = tipY (solvePRB3R p)\<rparr>])"
proof -
  have lin: "\<exists>r. solveLinearBeam p = Inr r \<and> length (points r) = 51"
    by (simp add: solveLinearBeam_result del: upt_Suc)
  have nl: "\<exists>r. solveNonlinearBeam p = Inr r
        \<and> length (points r) = (if E p * I p = 0 then 0 else 101)
        \<and> length (points r) \<le> 101"
  proof (cases "E p * I p = 0")
    case True
    then show ?thesis by (simp add: solveNonlinearBeam_def)
  next
    case False
    then show ?thesis by (simp add: solveNonlinearBeam_spec length_spec_polyline)
  qed
  have p1: "\<exists>r g. solvePRB1R p t = Inr r
        \<and> length (points r) = 3
        \<and> map_option gamma (prbParams r) = Some (Some g)
        \<and> points r =
            [\<lparr>pt_x = 0, pt_y = 0\<rparr>,
             \<lparr>pt_x = L p * (1 - g), pt_y = 0\<rparr>,
             \<lparr>pt_x = tipX r, pt_y = tipY r\<rparr>]"
  proof -
    obtain k where k: "selectConstants t (loadRatio p) = Inr k"
      using selectConstants_defined by blast
    from solvePRB1R_shape [OF k] obtain r where
      r: "solvePRB1R p t = Inr r"
        "prbParams r =
           Some \<lparr>gamma = Some (sel_gamma k), k_theta = Some (sel_K_theta k),
                 c_theta = Some (sel_c_theta k), links = None, stiffness_coeffs = None,
                 stiffness_physicals = Some [sel_gamma k * sel_K_theta k * (E p * I p / L p)]\<rparr>"
        "points r =
           [\<lparr>pt_x = 0, pt_y = 0\<rparr>, \<lparr>pt_x = L p * (1 - sel_gamma k), pt_y = 0\<rparr>,
            \<lparr>pt_x = tipX r, pt_y = tipY r\<rparr>]"
      by blast
    have "length (points r) = 3"
      by (simp add: r(3))
    moreover have "map_option gamma (prbParams r) = Some (Some (sel_gamma k))"
      by (simp add: r(2))
    ultimately show ?thesis
      using r(1,3) by blast
  qed
  have p3: "\<exists>q1 q2 q3. length (points (solvePRB3R p)) = 5
        \<and> points (solvePRB3R p) =
            [\<lparr>pt_x = 0, pt_y = 0\<rparr>, q1, q2, q3,
             \<lparr>pt_x = tipX (solvePRB3R p), pt_y = tipY (solvePRB3R p)\<rparr>]"
    using solvePRB3R_points [of p] by auto
  from lin nl p1 p3 show ?thesis
    by blast
qed

text \<open>
  \<^bold>\<open>C8\<close>. For every beam with \<open>P = 0\<close> the quotient \<open>nP / P\<close> has no finite value, and
  \<open>solvePRB1R\<close> does not take it: its guard makes the load ratio \<open>0\<close>, a finite number,
  so the combined-force variant returns a result, the fit before clamping is \<open>0.8521\<close>
  (the \<open>n > -1.83\<close> fit at \<open>n = 0\<close>), and that is the \<open>gamma\<close> reported.
\<close>

theorem C8_zero_force_ratio:
  assumes "P p = 0"
  shows "jsDivide (nP p) (P p) = None
     \<and> loadRatio p = Some 0
     \<and> map_option gammaFit (loadRatio p) = Some 0.8521
     \<and> (\<exists>r pp. solvePRB1R p PRB_1R_CANTILEVER_PNP = Inr r
          \<and> prbParams r = Some pp
          \<and> gamma pp = Some 0.8521)"
proof -
  have q: "jsDivide (nP p) (P p) = None"
    using assms by (simp add: jsDivide_def)
  have lr: "loadRatio p = Some 0"
    using assms by (simp add: loadRatio_def)
  have fit: "gammaFit 0 = 0.8521"
    by (simp add: gammaFit_def)
  have sel: "selectConstants PRB_1R_CANTILEVER_PNP (loadRatio p) =
      Inr \<lparr>sel_gamma = 0.8521, sel_K_theta = 2.65, sel_c_theta = 1.24,
           sel_label = ''PRB 1R (nP)'', sel_color = ''#f59e0b''\<rparr>"
    unfolding lr by (simp add: selectConstants_combined fit)
  from solvePRB1R_shape [OF sel] obtain r where
    "solvePRB1R p PRB_1R_CANTILEVER_PNP = Inr r"
    "\<exists>pp. prbParams r = Some pp \<and> gamma pp = Some 0.8521"
    by auto
  with q lr fit show ?thesis
    by auto
qed

theorem C8_zero_force_ratio_witness:
  "P horizontal_only_example = 0
   \<and> nP horizontal_only_example = 5
   \<and> jsDivide 5 0 = None
   \<and> loadRatio horizontal_only_example = Some 0
   \<and> (\<exists>r pp. solvePRB1R horizontal_only_example PRB_1R_CANTILEVER_PNP = Inr r
        \<and> prbParams r = Some pp
        \<and> gamma pp = Some 0.8521)"
proof -
  have h: "P horizontal_only_example = 0" and n: "nP horizontal_only_example = 5"
    by (simp_all add: horizontal_only_example_def)
  from C8_zero_force_ratio [OF h] have
    "jsDivide (nP horizontal_only_example) (P horizontal_only_example) = None"
    "loadRatio horizontal_only_example = Some 0"
    "\<exists>r pp. solvePRB1R horizontal_only_example PRB_1R_CANTILEVER_PNP = Inr r
        \<and> prbParams r = Some pp
        \<and> gamma pp = Some 0.8521"
    by blast+
  with h n show ?thesis
    by simp
qed

text \<open>
  \<^bold>\<open>C9\<close>. The link-length ratios \<open>g0 = 0.10\<close>, \<open>g1 = 0.35\<close>, \<open>g2 = 0.40\<close>,
  \<open>g3 = 0.15\<close> that \<open>solvePRB3R\<close> uses and reports sum to exactly \<open>1\<close>.
\<close>

theorem C9_link_ratios_sum:
  "g0 = 0.10 \<and> g1 = 0.35 \<and> g2 = 0.40 \<and> g3 = 0.15
   \<and> g0 + g1 + g2 + g3 = 1
   \<and> map_option links (prbParams (solvePRB3R p)) = Some (Some [g0, g1, g2, g3])"
  by (simp add: g0_def g1_def g2_def g3_def solvePRB3R_def Let_def split: prod.split)

text \<open>
  \<^bold>\<open>C10\<close>. Called with a selector that is none of the three PRB-1R variants,
  \<open>solvePRB1R\<close> keeps the initial constants \<open>gamma = 0.85\<close>, \<open>K_theta = 2.65\<close>,
  \<open>c_theta = 1.24\<close> and returns a full result (three points, diagnostics present) whose
  label and color are the empty string.
\<close>

theorem C10_other_selector_defaults:
  assumes "t \<noteq> PRB_1R_CANTILEVER_P" and "t \<noteq> PRB_1R_CANTILEVER_PNP"
    and "t \<noteq> PRB_1R_MOMENT"
  shows "\<exists>r pp. solvePRB1R p t = Inr r
     \<and> prbParams r = Some pp
     \<and> gamma pp = Some 0.85 \<and> k_theta pp = Some 2.65 \<and> c_theta pp = Some 1.24
     \<and> label r = [] \<and> color r = []
     \<and> length (points r) = 3
     \<and> maxStress r = 0"
proof -
  have sel: "selectConstants t (loadRatio p) =
      Inr \<lparr>sel_gamma = 0.85, sel_K_theta = 2.65, sel_c_theta = 1.24,
           sel_label = [], sel_color = []\<rparr>"
    using assms by (simp add: selectConstants_def)
  from solvePRB1R_shape [OF sel] obtain r where
    r: "solvePRB1R p t = Inr r"
      "\<exists>pp. prbParams r = Some pp
         \<and> gamma pp = Some 0.85 \<and> k_theta pp = Some 2.65 \<and> c_theta pp = Some 1.24"
      "label r = []" "color r = []" "maxStress r = 0"
      "points r =
         [\<lparr>pt_x = 0, pt_y = 0\<rparr>, \<lparr>pt_x = L p * (1 - 0.85), pt_y = 0\<rparr>,
          \<lparr>pt_x = tipX r, pt_y = tipY r\<rparr>]"
    by auto
  have "length (points r) = 3"
    by (simp add: r(6))
  with r(1-5) show ?thesis
    by blast
qed

theorem C10_other_selector_defaults_witness:
  "LINEAR \<noteq> PRB_1R_CANTILEVER_P \<and> LINEAR \<noteq> PRB_1R_CANTILEVER_PNP
   \<and> LINEAR \<noteq> PRB_1R_MOMENT
   \<and> (\<exists>r pp. solvePRB1R steel_example LINEAR = Inr r
        \<and> prbParams r = Some pp
        \<and> gamma pp = Some 0.85 \<and> k_theta pp = Some 2.65 \<and> c_theta pp = Some 1.24
        \<and> label r = [] \<and> color r = [])"
proof -
  have h: "LINEAR \<noteq> PRB_1R_CANTILEVER_P" "LINEAR \<noteq> PRB_1R_CANTILEVER_PNP"
    "LINEAR \<noteq> PRB_1R_MOMENT"
    by simp_all
  from C10_other_selector_defaults [OF h, of steel_example] h show ?thesis
    by blast
qed

end
